theory Spec2Isabelle
  imports Complex_Main "HOL-Library.Word" "HOL-Library.Multiset"
begin

section \<open>The tracer of \<^verbatim>\<open>src/tracer/tracer.go\<close>\<close>

text \<open>
  The development embeds the functions of \<^verbatim>\<open>tracer.go\<close> as HOL functions. A Go
  pointer to a tracer is an address into a store of tracers, a nil-able pointer or
  interface value is an \<open>option\<close>, a panic is the left summand of a result, and every
  call that leaves the tracer (the log, the transport, the sampler) is written to a list
  of effects that the function returns next to its result.
\<close>

subsection \<open>Data\<close>

type_synonym uint64 = "64 word"

type_synonym error = string

text \<open>
  Go's \<^verbatim>\<open>float64\<close>. \<^verbatim>\<open>SetSampleRate\<close> only compares its argument with the constants
  0 and 1, so a value is either a finite number (read as the real it denotes; both zeros
  denote 0 and compare equal, as in IEEE 754), an infinity, or a NaN. The comparisons are
  those of IEEE 754: every comparison with a NaN is false.
\<close>

datatype float64 = Finite real | PosInf | NegInf | NaN

fun f64_eq :: "float64 \<Rightarrow> float64 \<Rightarrow> bool" where
  "f64_eq (Finite a) (Finite b) = (a = b)"
| "f64_eq PosInf PosInf = True"
| "f64_eq NegInf NegInf = True"
| "f64_eq _ _ = False"

fun f64_lt :: "float64 \<Rightarrow> float64 \<Rightarrow> bool" where
  "f64_lt (Finite a) (Finite b) = (a < b)"
| "f64_lt (Finite a) PosInf = True"
| "f64_lt NegInf (Finite b) = True"
| "f64_lt NegInf PosInf = True"
| "f64_lt _ _ = False"

definition f64_ge :: "float64 \<Rightarrow> float64 \<Rightarrow> bool" where
  "f64_ge a b = (f64_lt b a \<or> f64_eq a b)"

text \<open>Membership in the closed interval from 0 to 1, the rates the doc comment of
  \<^verbatim>\<open>SetSampleRate\<close> allows.\<close>

fun in_unit_interval :: "float64 \<Rightarrow> bool" where
  "in_unit_interval (Finite x) = (0 \<le> x \<and> x \<le> 1)"
| "in_unit_interval _ = False"

text \<open>\<^verbatim>\<open>type Service struct\<close> and its \<^verbatim>\<open>Equal\<close>.\<close>

record Service =
  Name :: string
  App :: string
  AppType :: string

definition Equal :: "Service \<Rightarrow> Service \<Rightarrow> bool" where
  "Equal s s2 = (Service.Name s = Service.Name s2 \<and> App s = App s2 \<and> AppType s = AppType s2)"

text \<open>A \<^verbatim>\<open>*Tracer\<close> that is not nil is an address; the tracers live in a store.\<close>

type_synonym tracer_ptr = nat

text \<open>
  Modelled from the spec: the \<^verbatim>\<open>Span\<close> struct (its file is not among the sources).
  Section 3 of the specification gives a span its three identifiers, the operation,
  service and resource names, the kept flag and the reference back to its tracer; these
  are also exactly the fields \<^verbatim>\<open>tracer.go\<close> reads and writes. The reference is a
  \<^verbatim>\<open>*Tracer\<close> and may be nil.
\<close>

record Span =
  Name :: string
  Service :: string
  Resource :: string
  SpanID :: uint64
  TraceID :: uint64
  ParentID :: uint64
  Sampled :: bool
  tracer :: "tracer_ptr option"

text \<open>
  Modelled from the spec: the constructor \<^verbatim>\<open>NewSpan\<close> (not among the sources). Its
  argument order is read off \<^verbatim>\<open>NewRootSpan\<close>, which the doc comment and section 4.4
  describe as making trace id = span id and parent id = 0 from the call
  \<^verbatim>\<open>NewSpan(name, service, resource, spanID, spanID, 0, t)\<close>. The specification leaves
  the kept flag of a new span to the sampler or to the parent; every caller below
  overwrites it, and no statement below depends on the value it starts with.
\<close>

definition NewSpan ::
  "string \<Rightarrow> string \<Rightarrow> string \<Rightarrow> uint64 \<Rightarrow> uint64 \<Rightarrow> uint64 \<Rightarrow> tracer_ptr option \<Rightarrow> Span" where
  "NewSpan name service resource spanID traceID parentID t =
     \<lparr>Name = name, Service = service, Resource = resource, SpanID = spanID,
      TraceID = traceID, ParentID = parentID, Sampled = True, tracer = t\<rparr>"

text \<open>
  Modelled from the spec: the two sampling policies of section 4.1 (the sampler's file is
  not among the sources): \<^verbatim>\<open>newAllSampler()\<close> is the keep-all policy and
  \<^verbatim>\<open>newRateSampler(rate)\<close> the probabilistic one with its rate.
\<close>

datatype sampler = allSampler | rateSampler float64

text \<open>
  Modelled from the spec: \<^verbatim>\<open>Sample\<close> records the kept outcome on the span and changes
  nothing else (section 4.1). The keep-all policy keeps; the outcome of the probabilistic
  policy is the parameter \<open>keep\<close>, since the specification excludes its formula.
\<close>

fun Sample :: "(float64 \<Rightarrow> Span \<Rightarrow> bool) \<Rightarrow> sampler \<Rightarrow> Span \<Rightarrow> Span" where
  "Sample keep allSampler sp = sp\<lparr>Sampled := True\<rparr>"
| "Sample keep (rateSampler rate) sp = sp\<lparr>Sampled := keep rate sp\<rparr>"

text \<open>
  Modelled from the spec: the trace buffer of section 4.2 (\<^verbatim>\<open>spansBuffer\<close> is not among
  the sources): \<open>Push\<close> appends unless the configured maximum size is reached, in
  which case the span is dropped; \<open>Pop\<close> is the drain, returning everything and
  leaving the buffer empty; \<open>Len\<close> is the size.
\<close>

record spansBuffer =
  spans :: "Span list"
  maxSize :: nat

definition newSpansBuffer :: "nat \<Rightarrow> spansBuffer" where
  "newSpansBuffer n = \<lparr>spans = [], maxSize = n\<rparr>"

definition Push :: "spansBuffer \<Rightarrow> Span \<Rightarrow> spansBuffer" where
  "Push sb sp = (if length (spans sb) < maxSize sb then sb\<lparr>spans := spans sb @ [sp]\<rparr> else sb)"

definition Pop :: "spansBuffer \<Rightarrow> Span list \<times> spansBuffer" where
  "Pop sb = (spans sb, sb\<lparr>spans := []\<rparr>)"


text \<open>
  The \<^verbatim>\<open>Transport\<close> interface, an external collaborator: its two methods as functions
  from the argument to the error they return (\<open>None\<close> is Go's nil error; the HTTP
  response is discarded by every caller).
\<close>

record Transport =
  SendTraces :: "Span list list \<Rightarrow> error option"
  SendServices :: "(string \<rightharpoonup> Service) \<Rightarrow> error option"

text \<open>What the tracer does to the world outside: the lines it logs, the calls it makes
  on the transport, and the calls it makes on the sampler.\<close>

datatype log_entry =
    rate_must_be_between_0_and_1 float64
  | Sending_spans nat
  | SPAN Span
  | cannot_flush_traces error
  | lost_spans nat
  | cannot_flush_services error

datatype effect =
    LogPrintf log_entry
  | SendTracesCall "Span list list"
  | SendServicesCall "string \<rightharpoonup> Service"
  | SampleCall sampler Span

fun is_transport_call :: "effect \<Rightarrow> bool" where
  "is_transport_call (SendTracesCall _) = True"
| "is_transport_call (SendServicesCall _) = True"
| "is_transport_call _ = False"

fun is_sampler_call :: "effect \<Rightarrow> bool" where
  "is_sampler_call (SampleCall _ _) = True"
| "is_sampler_call _ = False"

datatype panic = nil_pointer_dereference | close_of_closed_channel | negative_WaitGroup_counter

text \<open>
  \<^verbatim>\<open>type Tracer struct\<close>. The transport is an interface value and may be nil. The
  buffered channel \<^verbatim>\<open>serviceChan\<close> is the queue of services sent and not yet
  received, oldest first; \<^verbatim>\<open>exit\<close> is true once the channel has been closed; the wait
  group is its counter.
\<close>

record Tracer =
  transport :: "Transport option"
  sampler :: sampler
  buffer :: spansBuffer
  DebugLoggingEnabled :: bool
  enabled :: bool
  services :: "string \<rightharpoonup> Service"
  servicesModified :: bool
  serviceChan :: "Service list"
  exit :: bool
  exitWG :: nat

type_synonym store = "tracer_ptr \<Rightarrow> Tracer"

subsection \<open>Configuration\<close>

definition SetEnabled :: "Tracer \<Rightarrow> bool \<Rightarrow> Tracer" where
  "SetEnabled t en = t\<lparr>enabled := en\<rparr>"

definition Enabled :: "Tracer \<Rightarrow> bool" where
  "Enabled t = enabled t"

definition SetSampleRate :: "Tracer \<Rightarrow> float64 \<Rightarrow> Tracer \<times> effect list" where
  "SetSampleRate t sampleRate =
     (if f64_eq sampleRate (Finite 1) then (t\<lparr>sampler := allSampler\<rparr>, [])
      else if f64_ge sampleRate (Finite 0) \<and> f64_lt sampleRate (Finite 1)
        then (t\<lparr>sampler := rateSampler sampleRate\<rparr>, [])
      else (t, [LogPrintf (rate_must_be_between_0_and_1 sampleRate)]))"

text \<open>
  \<^verbatim>\<open>NewTracerTransport\<close>: the tracer as the constructor leaves it, the wait group
  already at 1 for the worker it starts. The constant \<^verbatim>\<open>spanBufferDefaultMaxSize\<close> is
  not among the sources and is a parameter.
\<close>

definition NewTracerTransport :: "nat \<Rightarrow> Transport option \<Rightarrow> Tracer" where
  "NewTracerTransport spanBufferDefaultMaxSize tr =
     \<lparr>transport = tr, sampler = allSampler,
      buffer = newSpansBuffer spanBufferDefaultMaxSize,
      DebugLoggingEnabled = False, enabled = True,
      services = Map.empty, servicesModified = False, serviceChan = [],
      exit = False, exitWG = 1\<rparr>"



subsection \<open>Creating spans\<close>

text \<open>
  The receiver \<open>t\<close> is the address \<open>tp\<close> in the store \<open>h\<close>; \<open>spanID\<close> is the
  value \<^verbatim>\<open>nextSpanID()\<close> returned to this call (the generator is not among the
  sources). The functions return the new span and the sampler calls they made.
\<close>

definition NewRootSpan ::
  "(float64 \<Rightarrow> Span \<Rightarrow> bool) \<Rightarrow> store \<Rightarrow> tracer_ptr \<Rightarrow> uint64 \<Rightarrow> string \<Rightarrow> string \<Rightarrow> string
     \<Rightarrow> Span \<times> effect list" where
  "NewRootSpan keep h tp spanID name service resource =
     (let sp = NewSpan name service resource spanID spanID 0 (Some tp)
      in (Sample keep (sampler (h tp)) sp, [SampleCall (sampler (h tp)) sp]))"

definition NewChildSpan ::
  "(float64 \<Rightarrow> Span \<Rightarrow> bool) \<Rightarrow> store \<Rightarrow> tracer_ptr \<Rightarrow> uint64 \<Rightarrow> string \<Rightarrow> Span option
     \<Rightarrow> Span \<times> effect list" where
  "NewChildSpan keep h tp spanID name parent =
     (case parent of
        None \<Rightarrow>
          (let sp = NewSpan name [] name spanID spanID spanID (Some tp)
           in (Sample keep (sampler (h tp)) sp, [SampleCall (sampler (h tp)) sp]))
      | Some p \<Rightarrow>
          (let sp = NewSpan name (Service p) name spanID (TraceID p) (SpanID p) (tracer p)
           in (sp\<lparr>Sampled := Sampled p\<rparr>, [])))"

subsection \<open>Recording and flushing\<close>

definition record_span :: "Tracer \<Rightarrow> Span \<Rightarrow> Tracer" where
  "record_span t sp = (if enabled t \<and> Sampled sp then t\<lparr>buffer := Push (buffer t) sp\<rparr> else t)"

text \<open>
  Modelled from the spec: finishing a span (\<^verbatim>\<open>Finish\<close> is not among the sources)
  hands it to \<^verbatim>\<open>record\<close> of the tracer its reference names (sections 3 and 6); a span
  with a nil reference is handed to nobody.
\<close>

definition Finish :: "store \<Rightarrow> Span \<Rightarrow> store" where
  "Finish h sp = (case tracer sp of None \<Rightarrow> h | Some p \<Rightarrow> h(p := record_span (h p) sp))"

text \<open>The first loop of \<^verbatim>\<open>FlushTraces\<close>: append each drained span to the entry of its
  trace identifier; a missing entry reads as the nil slice.\<close>

definition traceBuffer :: "Span list \<Rightarrow> (uint64 \<rightharpoonup> Span list)" where
  "traceBuffer ss =
     foldl (\<lambda>m s. m(TraceID s \<mapsto> (case m (TraceID s) of None \<Rightarrow> [] | Some g \<Rightarrow> g) @ [s]))
       Map.empty ss"

text \<open>
  The second loop ranges over the map. Go leaves the order of that iteration to the
  runtime; \<open>ks\<close> is the order in which the runtime visits the keys. It is an order of
  the map when it names every key of the map once.
\<close>

definition traces_in_order :: "uint64 list \<Rightarrow> (uint64 \<rightharpoonup> Span list) \<Rightarrow> Span list list" where
  "traces_in_order ks m = List.map_filter m ks"

definition range_order :: "uint64 list \<Rightarrow> (uint64 \<rightharpoonup> Span list) \<Rightarrow> bool" where
  "range_order ks m = (distinct ks \<and> set ks = dom m)"

definition FlushTraces :: "uint64 list \<Rightarrow> Tracer \<Rightarrow> error option \<times> Tracer \<times> effect list" where
  "FlushTraces ks t =
     (let (drained, b) = Pop (buffer t);
          t1 = t\<lparr>buffer := b\<rparr>;
          dbg = (if DebugLoggingEnabled t
                 then LogPrintf (Sending_spans (length drained)) # map (\<lambda>s. LogPrintf (SPAN s)) drained
                 else [])
      in if \<not> enabled t \<or> transport t = None \<or> length drained = 0 then (None, t1, dbg)
         else (let traces = traces_in_order ks (traceBuffer drained)
               in case transport t of
                    Some tr \<Rightarrow> (SendTraces tr traces, t1, dbg @ [SendTracesCall traces])
                  | None \<Rightarrow> (None, t1, dbg)))"

text \<open>\<^verbatim>\<open>flushServices\<close> calls \<^verbatim>\<open>SendServices\<close> on the transport without looking at it
  first: on a nil interface value the call panics.\<close>

definition flushServices :: "Tracer \<Rightarrow> (panic + error option) \<times> Tracer \<times> effect list" where
  "flushServices t =
     (if \<not> enabled t \<or> \<not> servicesModified t then (Inr None, t, [])
      else case transport t of
             None \<Rightarrow> (Inl nil_pointer_dereference, t, [])
           | Some tr \<Rightarrow>
               (case SendServices tr (services t) of
                  Some err \<Rightarrow> (Inr (Some err), t, [SendServicesCall (services t)])
                | None \<Rightarrow> (Inr None, t\<lparr>servicesModified := False\<rparr>,
                            [SendServicesCall (services t)])))"


subsection \<open>The service registry and the worker\<close>

definition appendService :: "Tracer \<Rightarrow> Service \<Rightarrow> Tracer" where
  "appendService t service =
     (let r = services t (Service.Name service);
          found = (r \<noteq> None);
          s = (case r of None \<Rightarrow> \<lparr>Service.Name = [], App = [], AppType = []\<rparr> | Some v \<Rightarrow> v)
      in if \<not> found \<or> \<not> Equal s service
         then t\<lparr>services := (services t)(Service.Name service \<mapsto> service),
                servicesModified := True\<rparr>
         else t)"















subsection \<open>Concrete values\<close>

text \<open>A transport that accepts everything, one that refuses everything, a tracer as the
  constructor builds it, and a store of two tracers.\<close>

definition accepting :: Transport where
  "accepting = \<lparr>SendTraces = (\<lambda>_. None), SendServices = (\<lambda>_. None)\<rparr>"

definition refusing :: Transport where
  "refusing = \<lparr>SendTraces = (\<lambda>_. Some ''agent down''), SendServices = (\<lambda>_. Some ''agent down'')\<rparr>"

definition tracer0 :: Tracer where
  "tracer0 = NewTracerTransport 1000 (Some accepting)"

definition store0 :: store where
  "store0 = (\<lambda>a. if a = 0 then tracer0\<lparr>sampler := rateSampler (Finite 0)\<rparr> else tracer0)"

definition store1 :: store where
  "store1 = (\<lambda>a. tracer0)"

definition orphan :: Span where
  "orphan = \<lparr>Span.Name = ''web.request'', Service = [], Resource = ''web.request'', SpanID = 7,
             TraceID = 7, ParentID = 7, Sampled = True, tracer = Some 0\<rparr>"

definition db_service :: Service where
  "db_service = \<lparr>Service.Name = ''db'', App = ''postgres'', AppType = ''db''\<rparr>"

definition keep_none :: "float64 \<Rightarrow> Span \<Rightarrow> bool" where
  "keep_none rate sp = False"

definition span_a :: Span where
  "span_a = NewSpan ''web.request'' ''web'' ''/home'' 10 1 0 (Some 0)"

definition span_b :: Span where
  "span_b = NewSpan ''web.request'' ''web'' ''/cart'' 20 2 0 (Some 0)"

definition span_c :: Span where
  "span_c = NewSpan ''db.query'' ''web'' ''db.query'' 11 1 10 (Some 0)"

definition web_service :: Service where
  "web_service = \<lparr>Service.Name = ''web'', App = ''rails'', AppType = ''web''\<rparr>"

definition tracer1 :: Tracer where
  "tracer1 = appendService tracer0 web_service"

section \<open>Theorems\<close>

subsection \<open>SetSampleRate\<close>

lemma SetSampleRate_cases:
  "SetSampleRate t r =
     (if r = Finite 1 then (t\<lparr>sampler := allSampler\<rparr>, [])
      else if in_unit_interval r then (t\<lparr>sampler := rateSampler r\<rparr>, [])
      else (t, [LogPrintf (rate_must_be_between_0_and_1 r)]))"
  by (cases r) (auto simp: SetSampleRate_def f64_ge_def)

text \<open>
  Claim C8. For every rate outside the interval from 0 to 1 (a NaN and the infinities
  included) \<open>SetSampleRate\<close> returns the tracer as it was, so the sampler configured
  before stays, and its only effect is one logged warning; the call returns normally in
  every case. The rate 1 installs the keep-all sampler, and a rate from 0 up to but
  excluding 1 installs the probabilistic sampler with that rate, both without logging.
\<close>

theorem SetSampleRate_rejects_outside_unit_interval:
  "(\<not> in_unit_interval r \<longrightarrow>
      SetSampleRate t r = (t, [LogPrintf (rate_must_be_between_0_and_1 r)]) \<and>
      sampler (fst (SetSampleRate t r)) = sampler t)
   \<and> (r = Finite 1 \<longrightarrow> SetSampleRate t r = (t\<lparr>sampler := allSampler\<rparr>, []))
   \<and> (in_unit_interval r \<and> r \<noteq> Finite 1 \<longrightarrow>
      SetSampleRate t r = (t\<lparr>sampler := rateSampler r\<rparr>, []))"
  by (cases r) (auto simp: SetSampleRate_cases)

theorem SetSampleRate_rejects_outside_unit_interval_witness:
  "\<not> in_unit_interval (Finite (3/2))
   \<and> SetSampleRate (tracer0\<lparr>sampler := rateSampler (Finite (1/4))\<rparr>) (Finite (3/2)) =
       (tracer0\<lparr>sampler := rateSampler (Finite (1/4))\<rparr>,
        [LogPrintf (rate_must_be_between_0_and_1 (Finite (3/2)))])
   \<and> sampler (fst (SetSampleRate (tracer0\<lparr>sampler := rateSampler (Finite (1/4))\<rparr>) (Finite (3/2))))
       = rateSampler (Finite (1/4))
   \<and> SetSampleRate (tracer0\<lparr>sampler := rateSampler (Finite (1/4))\<rparr>) (Finite 1) =
       (tracer0\<lparr>sampler := allSampler\<rparr>, [])
   \<and> in_unit_interval (Finite (1/2))
   \<and> SetSampleRate tracer0 (Finite (1/2)) = (tracer0\<lparr>sampler := rateSampler (Finite (1/2))\<rparr>, [])"
  using SetSampleRate_rejects_outside_unit_interval
          [of "Finite (3/2)" "tracer0\<lparr>sampler := rateSampler (Finite (1/4))\<rparr>"]
        SetSampleRate_rejects_outside_unit_interval
          [of "Finite 1" "tracer0\<lparr>sampler := rateSampler (Finite (1/4))\<rparr>"]
        SetSampleRate_rejects_outside_unit_interval [of "Finite (1/2)" tracer0]
  by simp

subsection \<open>NewChildSpan\<close>

text \<open>What the branch for an absent parent computes: the span has the identifier
  allocated for this call as its span, trace and parent identifier, the empty service,
  the name as its resource and the receiver as its tracer, and it is handed to the
  receiver's sampler once.\<close>

lemma NewChildSpan_nil_branch:
  "NewChildSpan keep h tp spanID name None =
     (Sample keep (sampler (h tp)) (NewSpan name [] name spanID spanID spanID (Some tp)),
      [SampleCall (sampler (h tp)) (NewSpan name [] name spanID spanID spanID (Some tp))])
   \<and> SpanID (fst (NewChildSpan keep h tp spanID name None)) = spanID
   \<and> TraceID (fst (NewChildSpan keep h tp spanID name None)) = spanID
   \<and> ParentID (fst (NewChildSpan keep h tp spanID name None)) = spanID
   \<and> Service (fst (NewChildSpan keep h tp spanID name None)) = []
   \<and> Resource (fst (NewChildSpan keep h tp spanID name None)) = name
   \<and> Span.Name (fst (NewChildSpan keep h tp spanID name None)) = name
   \<and> tracer (fst (NewChildSpan keep h tp spanID name None)) = Some tp"
  by (cases "sampler (h tp)") (simp_all add: NewChildSpan_def NewSpan_def Let_def)

text \<open>
  Claim C1 says that a span made for an absent parent is never transmitted, which is
  also what the comment in \<^verbatim>\<open>NewChildSpan\<close> promises (a span "that is not sent to the
  trace agent"). The code does not keep that promise. On a tracer as the constructor
  builds it (keep-all sampler, a transport present), the call
  \<^verbatim>\<open>NewChildSpan("web.request", nil)\<close> returns a span that carries the tracer and is
  kept; finishing it puts it into the buffer, and the next \<open>FlushTraces\<close> hands it
  to the transport. The sampler is called on it, and its service is the empty string,
  not its name.
\<close>

theorem NewChildSpan_nil_parent_is_transmitted:
  "NewChildSpan keep_none store1 0 7 ''web.request'' None =
     (orphan, [SampleCall allSampler (NewSpan ''web.request'' [] ''web.request'' 7 7 7 (Some 0))])
   \<and> Service orphan \<noteq> ''web.request''
   \<and> Sampled orphan
   \<and> tracer orphan = Some 0
   \<and> spans (buffer (Finish store1 orphan 0)) = [orphan]
   \<and> FlushTraces [7] (Finish store1 orphan 0) = (None, tracer0, [SendTracesCall [[orphan]]])"
proof -
  have new: "NewChildSpan keep_none store1 0 7 ''web.request'' None =
     (orphan, [SampleCall allSampler (NewSpan ''web.request'' [] ''web.request'' 7 7 7 (Some 0))])"
    by (simp add: NewChildSpan_def NewSpan_def Let_def store1_def orphan_def tracer0_def
        NewTracerTransport_def)
  have fields: "Service orphan \<noteq> ''web.request''" "Sampled orphan" "tracer orphan = Some 0"
    "TraceID orphan = 7"
    by (simp_all add: orphan_def)
  have fin: "Finish store1 orphan 0 = tracer0\<lparr>buffer := \<lparr>spans = [orphan], maxSize = 1000\<rparr>\<rparr>"
    by (simp add: Finish_def fields store1_def record_span_def Push_def tracer0_def
        NewTracerTransport_def newSpansBuffer_def)
  have buf: "spans (buffer (Finish store1 orphan 0)) = [orphan]"
    by (simp add: fin)
  have fl: "FlushTraces [7] (Finish store1 orphan 0) = (None, tracer0, [SendTracesCall [[orphan]]])"
    by (simp add: fin FlushTraces_def Pop_def traces_in_order_def traceBuffer_def fields
        accepting_def tracer0_def NewTracerTransport_def newSpansBuffer_def)
  from new fields(1-3) buf fl show ?thesis by blast
qed

theorem NewChildSpan_nil_parent_is_transmitted_witness:
  "filter is_transport_call (snd (snd (FlushTraces [7] (Finish store1 orphan 0)))) =
     [SendTracesCall [[orphan]]]"
  using NewChildSpan_nil_parent_is_transmitted by simp

text \<open>
  Claim C3. For every parent that is not nil, the child has the parent's service, the
  parent's trace identifier and the parent's kept flag, and its resource is its own name
  (its parent identifier is the parent's span identifier). No sampler call is made, and
  the child does not depend on the sampler, nor on the receiver at all: any two
  receivers, stores and policies give the same child. So the child of a kept parent is
  kept and the child of a parent that is not kept is not kept.
\<close>

theorem NewChildSpan_inherits_from_parent:
  "Service (fst (NewChildSpan keep h tp spanID name (Some p))) = Service p
   \<and> TraceID (fst (NewChildSpan keep h tp spanID name (Some p))) = TraceID p
   \<and> Sampled (fst (NewChildSpan keep h tp spanID name (Some p))) = Sampled p
   \<and> Resource (fst (NewChildSpan keep h tp spanID name (Some p))) = name
   \<and> Span.Name (fst (NewChildSpan keep h tp spanID name (Some p))) = name
   \<and> SpanID (fst (NewChildSpan keep h tp spanID name (Some p))) = spanID
   \<and> ParentID (fst (NewChildSpan keep h tp spanID name (Some p))) = SpanID p
   \<and> snd (NewChildSpan keep h tp spanID name (Some p)) = []
   \<and> NewChildSpan keep h tp spanID name (Some p) = NewChildSpan keep' h' tp' spanID name (Some p)"
  by (simp add: NewChildSpan_def NewSpan_def Let_def)

theorem NewChildSpan_inherits_from_parent_witness:
  "Sampled (fst (NewChildSpan keep_none store0 0 8 ''db.query''
      (Some (NewSpan ''web.request'' ''web'' ''/home'' 7 7 0 (Some 1))))) = True
   \<and> Sampled (fst (NewChildSpan keep_none store0 1 8 ''db.query''
      (Some ((NewSpan ''web.request'' ''web'' ''/home'' 7 7 0 (Some 0))\<lparr>Sampled := False\<rparr>)))) = False
   \<and> Service (fst (NewChildSpan keep_none store0 0 8 ''db.query''
      (Some (NewSpan ''web.request'' ''web'' ''/home'' 7 7 0 (Some 1))))) = ''web''
   \<and> snd (NewChildSpan keep_none store0 0 8 ''db.query''
      (Some (NewSpan ''web.request'' ''web'' ''/home'' 7 7 0 (Some 1)))) = []"
  using NewChildSpan_inherits_from_parent
          [of keep_none store0 0 8 "''db.query''" "NewSpan ''web.request'' ''web'' ''/home'' 7 7 0 (Some 1)"]
        NewChildSpan_inherits_from_parent
          [of keep_none store0 1 8 "''db.query''"
              "(NewSpan ''web.request'' ''web'' ''/home'' 7 7 0 (Some 0))\<lparr>Sampled := False\<rparr>"]
  by (simp add: NewSpan_def)

text \<open>
  Claim C10. For every parent that is not nil, the child carries the tracer reference of
  the parent, whatever the receiver is. So finishing the child records it with the tracer
  the parent names: when that tracer is at address \<open>q\<close>, the store changes at \<open>q\<close>
  only, by \<open>record\<close> of that tracer, and a receiver at another address is left as it
  was.
\<close>

theorem NewChildSpan_child_reports_to_parent_tracer:
  "tracer (fst (NewChildSpan keep h tp spanID name (Some p))) = tracer p
   \<and> (tracer p = Some q \<longrightarrow>
        Finish h (fst (NewChildSpan keep h tp spanID name (Some p))) =
          h(q := record_span (h q) (fst (NewChildSpan keep h tp spanID name (Some p))))
        \<and> (tp \<noteq> q \<longrightarrow>
             Finish h (fst (NewChildSpan keep h tp spanID name (Some p))) tp = h tp))"
  by (simp add: NewChildSpan_def NewSpan_def Let_def Finish_def)

theorem NewChildSpan_child_reports_to_parent_tracer_witness:
  "tracer (fst (NewChildSpan keep_none store0 0 8 ''db.query''
      (Some (NewSpan ''web.request'' ''web'' ''/home'' 7 7 0 (Some 1))))) = Some 1
   \<and> spans (buffer (Finish store0 (fst (NewChildSpan keep_none store0 0 8 ''db.query''
      (Some (NewSpan ''web.request'' ''web'' ''/home'' 7 7 0 (Some 1))))) 1)) =
       [\<lparr>Span.Name = ''db.query'', Service = ''web'', Resource = ''db.query'', SpanID = 8,
         TraceID = 7, ParentID = 7, Sampled = True, tracer = Some 1\<rparr>]
   \<and> spans (buffer (Finish store0 (fst (NewChildSpan keep_none store0 0 8 ''db.query''
      (Some (NewSpan ''web.request'' ''web'' ''/home'' 7 7 0 (Some 1))))) 0)) = []"
  using NewChildSpan_child_reports_to_parent_tracer
          [of keep_none store0 0 8 "''db.query''"
              "NewSpan ''web.request'' ''web'' ''/home'' 7 7 0 (Some 1)" 1]
  by (simp add: NewSpan_def NewChildSpan_def store0_def tracer0_def NewTracerTransport_def
        newSpansBuffer_def record_span_def Push_def)

subsection \<open>record\<close>

text \<open>
  Claim C5. For every span handed to \<open>record\<close>: when the tracer is enabled and the span
  is kept, the tracer becomes the same tracer with the span pushed into its buffer (the
  span is then the last of the buffer, unless the buffer is at its maximum size and drops
  it); in every other case the tracer is returned as it was. So a tracer that changed
  was enabled and the span was kept.
\<close>

theorem record_pushes_iff_enabled_and_kept:
  "(enabled t \<and> Sampled sp \<longrightarrow> record_span t sp = t\<lparr>buffer := Push (buffer t) sp\<rparr>)
   \<and> (enabled t \<and> Sampled sp \<and> length (spans (buffer t)) < maxSize (buffer t) \<longrightarrow>
        spans (buffer (record_span t sp)) = spans (buffer t) @ [sp])
   \<and> (\<not> (enabled t \<and> Sampled sp) \<longrightarrow> record_span t sp = t)
   \<and> (record_span t sp \<noteq> t \<longrightarrow> enabled t \<and> Sampled sp)"
  by (simp add: record_span_def Push_def)

theorem record_pushes_iff_enabled_and_kept_witness:
  "spans (buffer (record_span tracer0 (NewSpan ''web.request'' ''web'' ''/home'' 7 7 0 (Some 0)))) =
     [NewSpan ''web.request'' ''web'' ''/home'' 7 7 0 (Some 0)]
   \<and> record_span tracer0 ((NewSpan ''web.request'' ''web'' ''/home'' 7 7 0 (Some 0))\<lparr>Sampled := False\<rparr>)
       = tracer0
   \<and> record_span (SetEnabled tracer0 False) (NewSpan ''web.request'' ''web'' ''/home'' 7 7 0 (Some 0))
       = SetEnabled tracer0 False"
  using record_pushes_iff_enabled_and_kept
          [of tracer0 "NewSpan ''web.request'' ''web'' ''/home'' 7 7 0 (Some 0)"]
        record_pushes_iff_enabled_and_kept
          [of tracer0 "(NewSpan ''web.request'' ''web'' ''/home'' 7 7 0 (Some 0))\<lparr>Sampled := False\<rparr>"]
        record_pushes_iff_enabled_and_kept
          [of "SetEnabled tracer0 False" "NewSpan ''web.request'' ''web'' ''/home'' 7 7 0 (Some 0)"]
  by (simp add: NewSpan_def tracer0_def NewTracerTransport_def newSpansBuffer_def SetEnabled_def
        Push_def)

subsection \<open>FlushTraces\<close>

lemma traceBuffer_snoc:
  "traceBuffer (ss @ [x]) =
     (traceBuffer ss)(TraceID x \<mapsto> (case traceBuffer ss (TraceID x) of None \<Rightarrow> [] | Some g \<Rightarrow> g) @ [x])"
  by (simp add: traceBuffer_def)

lemma traceBuffer_lookup:
  "traceBuffer ss k =
     (if k \<in> TraceID ` set ss then Some (filter (\<lambda>s. TraceID s = k) ss) else None)"
proof (induction ss rule: rev_induct)
  case Nil
  show ?case by (simp add: traceBuffer_def)
next
  case (snoc x xs)
  show ?case
  proof (cases "TraceID x = k")
    case True
    have "k \<notin> TraceID ` set xs \<Longrightarrow> filter (\<lambda>s. TraceID s = k) xs = []"
      by (auto simp: filter_empty_conv)
    with True snoc show ?thesis by (auto simp add: traceBuffer_snoc)
  next
    case False
    with snoc show ?thesis by (simp add: traceBuffer_snoc)
  qed
qed

lemma dom_traceBuffer: "dom (traceBuffer ss) = TraceID ` set ss"
  by (auto simp: dom_def traceBuffer_lookup)

lemma traces_in_order_groups:
  "set ks \<subseteq> TraceID ` set ss \<Longrightarrow>
     traces_in_order ks (traceBuffer ss) = map (\<lambda>k. filter (\<lambda>s. TraceID s = k) ss) ks"
  by (induction ks) (auto simp: traces_in_order_def traceBuffer_lookup)

lemma mset_filter_disjoint:
  "(\<And>x. \<not> (P x \<and> Q x)) \<Longrightarrow>
     mset (filter P xs) + mset (filter Q xs) = mset (filter (\<lambda>x. P x \<or> Q x) xs)"
  by (induction xs) auto

lemma mset_concat_groups:
  "distinct ks \<Longrightarrow>
     mset (concat (map (\<lambda>k. filter (\<lambda>s. f s = k) ss) ks)) = mset (filter (\<lambda>s. f s \<in> set ks) ss)"
proof (induction ks)
  case Nil
  show ?case by simp
next
  case (Cons k ks)
  then have disj: "\<And>x. \<not> (f x = k \<and> f x \<in> set ks)" by auto
  have "mset (concat (map (\<lambda>k. filter (\<lambda>s. f s = k) ss) (k # ks))) =
          mset (filter (\<lambda>s. f s = k) ss) + mset (filter (\<lambda>s. f s \<in> set ks) ss)"
    using Cons by simp
  also have "\<dots> = mset (filter (\<lambda>s. f s = k \<or> f s \<in> set ks) ss)"
    using disj by (rule mset_filter_disjoint)
  finally show ?case by simp
qed

lemma FlushTraces_tracer:
  "fst (snd (FlushTraces ks t)) = t\<lparr>buffer := (buffer t)\<lparr>spans := []\<rparr>\<rparr>"
  by (simp add: FlushTraces_def Pop_def Let_def split: option.splits)

lemma FlushTraces_nothing_to_do:
  "\<not> enabled t \<or> transport t = None \<or> spans (buffer t) = [] \<Longrightarrow>
     FlushTraces ks t =
       (None, t\<lparr>buffer := (buffer t)\<lparr>spans := []\<rparr>\<rparr>,
        if DebugLoggingEnabled t
        then LogPrintf (Sending_spans (length (spans (buffer t)))) #
             map (\<lambda>s. LogPrintf (SPAN s)) (spans (buffer t))
        else [])"
  by (auto simp add: FlushTraces_def Pop_def Let_def split: option.splits)

lemma filter_transport_dbg:
  "filter is_transport_call
     (if d then LogPrintf (Sending_spans n) # map (\<lambda>s. LogPrintf (SPAN s)) ss else []) = []"
  by (induction ss) auto

lemma FlushTraces_sends:
  "enabled t \<Longrightarrow> transport t = Some tr \<Longrightarrow> spans (buffer t) \<noteq> [] \<Longrightarrow>
     FlushTraces ks t =
       (SendTraces tr (traces_in_order ks (traceBuffer (spans (buffer t)))),
        t\<lparr>buffer := (buffer t)\<lparr>spans := []\<rparr>\<rparr>,
        (if DebugLoggingEnabled t
         then LogPrintf (Sending_spans (length (spans (buffer t)))) #
              map (\<lambda>s. LogPrintf (SPAN s)) (spans (buffer t))
         else []) @ [SendTracesCall (traces_in_order ks (traceBuffer (spans (buffer t))))])"
  by (simp add: FlushTraces_def Pop_def Let_def)

lemma range_order_exists: "range_order (remdups (map TraceID ss)) (traceBuffer ss)"
  by (simp add: range_order_def dom_traceBuffer)

text \<open>
  Claim C6. \<open>FlushTraces\<close> always drains the buffer: the tracer it leaves is the
  tracer it found with an empty buffer. Whenever the tracer is disabled, the transport
  is absent, or the drain returned no spans, it returns the nil error and makes no call
  on the transport (with debug logging on it still logs); with an empty buffer in
  particular the transport is never called.
\<close>

theorem FlushTraces_drains_and_skips_transport:
  "spans (buffer (fst (snd (FlushTraces ks t)))) = []
   \<and> fst (snd (FlushTraces ks t)) = t\<lparr>buffer := (buffer t)\<lparr>spans := []\<rparr>\<rparr>
   \<and> (\<not> enabled t \<or> transport t = None \<or> spans (buffer t) = [] \<longrightarrow>
        fst (FlushTraces ks t) = None
        \<and> filter is_transport_call (snd (snd (FlushTraces ks t))) = [])"
proof -
  have "\<not> enabled t \<or> transport t = None \<or> spans (buffer t) = [] \<Longrightarrow>
          fst (FlushTraces ks t) = None
          \<and> filter is_transport_call (snd (snd (FlushTraces ks t))) = []"
    by (simp only: FlushTraces_nothing_to_do filter_transport_dbg fst_conv snd_conv simp_thms)
  then show ?thesis
    by (simp add: FlushTraces_tracer)
qed

theorem FlushTraces_drains_and_skips_transport_witness:
  "FlushTraces [1, 2] ((SetEnabled tracer0 False)\<lparr>buffer := \<lparr>spans = [span_a, span_b], maxSize = 1000\<rparr>\<rparr>)
     = (None, SetEnabled tracer0 False, [])
   \<and> FlushTraces [1, 2] (tracer0\<lparr>transport := None, buffer := \<lparr>spans = [span_a, span_b], maxSize = 1000\<rparr>\<rparr>)
     = (None, tracer0\<lparr>transport := None\<rparr>, [])
   \<and> FlushTraces [] tracer0 = (None, tracer0, [])"
  using FlushTraces_drains_and_skips_transport
          [of "[1, 2]" "(SetEnabled tracer0 False)\<lparr>buffer := \<lparr>spans = [span_a, span_b], maxSize = 1000\<rparr>\<rparr>"]
        FlushTraces_drains_and_skips_transport
          [of "[1, 2]" "tracer0\<lparr>transport := None, buffer := \<lparr>spans = [span_a, span_b], maxSize = 1000\<rparr>\<rparr>"]
        FlushTraces_drains_and_skips_transport [of "[]" tracer0]
  by (simp add: FlushTraces_def Pop_def SetEnabled_def tracer0_def NewTracerTransport_def
        newSpansBuffer_def)

text \<open>
  Claim C7. When \<open>FlushTraces\<close> submits (the tracer enabled, a transport present, the
  drain not empty), it makes exactly one call on the transport, \<open>SendTraces\<close>, and
  returns its error. The argument has one group for each key \<open>k\<close> of the map, in the
  order \<open>ks\<close> the runtime ranges over the map, and the group of \<open>k\<close> is exactly
  the drained spans with trace identifier \<open>k\<close>, in the order they were drained. The
  keys are the distinct trace identifiers of the drained spans, so there are as many
  groups as distinct trace identifiers, and the groups together hold each drained span
  once. For drained spans with trace identifiers 1, 2, 1 there are two groups, one with
  both spans of trace 1 and one with the span of trace 2.
\<close>

theorem FlushTraces_groups_by_trace:
  assumes "enabled t" and "transport t = Some tr" and "spans (buffer t) \<noteq> []"
    and "range_order ks (traceBuffer (spans (buffer t)))"
  shows "filter is_transport_call (snd (snd (FlushTraces ks t))) =
           [SendTracesCall (map (\<lambda>k. filter (\<lambda>s. TraceID s = k) (spans (buffer t))) ks)]
         \<and> fst (FlushTraces ks t) =
             SendTraces tr (map (\<lambda>k. filter (\<lambda>s. TraceID s = k) (spans (buffer t))) ks)
         \<and> distinct ks \<and> set ks = TraceID ` set (spans (buffer t))
         \<and> length (map (\<lambda>k. filter (\<lambda>s. TraceID s = k) (spans (buffer t))) ks) =
             card (TraceID ` set (spans (buffer t)))
         \<and> mset (concat (map (\<lambda>k. filter (\<lambda>s. TraceID s = k) (spans (buffer t))) ks)) =
             mset (spans (buffer t))"
proof -
  let ?ss = "spans (buffer t)"
  let ?groups = "map (\<lambda>k. filter (\<lambda>s. TraceID s = k) ?ss) ks"
  from assms(4) have d: "distinct ks" and k: "set ks = TraceID ` set ?ss"
    by (simp_all add: range_order_def dom_traceBuffer)
  from k have g: "traces_in_order ks (traceBuffer ?ss) = ?groups"
    by (simp add: traces_in_order_groups)
  have call: "filter is_transport_call (snd (snd (FlushTraces ks t))) = [SendTracesCall ?groups]"
    by (simp only: FlushTraces_sends [OF assms(1-3)] g snd_conv filter_append filter_transport_dbg)
      simp
  have res: "fst (FlushTraces ks t) = SendTraces tr ?groups"
    by (simp only: FlushTraces_sends [OF assms(1-3)] g fst_conv)
  have len: "length ?groups = card (TraceID ` set ?ss)"
    using d k by (simp add: distinct_card [symmetric])
  have "mset (concat ?groups) = mset (filter (\<lambda>s. TraceID s \<in> set ks) ?ss)"
    using d by (rule mset_concat_groups)
  also have "\<dots> = mset ?ss"
    using k by simp
  finally have part: "mset (concat ?groups) = mset ?ss" .
  from call res d k len part show ?thesis by blast
qed

theorem FlushTraces_groups_by_trace_witness:
  "FlushTraces [2, 1] (tracer0\<lparr>buffer := \<lparr>spans = [span_a, span_b, span_c], maxSize = 1000\<rparr>\<rparr>) =
     (None, tracer0, [SendTracesCall [[span_b], [span_a, span_c]]])
   \<and> TraceID span_a = 1 \<and> TraceID span_b = 2 \<and> TraceID span_c = 1"
proof -
  let ?t = "tracer0\<lparr>buffer := \<lparr>spans = [span_a, span_b, span_c], maxSize = 1000\<rparr>\<rparr>"
  have ids: "TraceID span_a = 1 \<and> TraceID span_b = 2 \<and> TraceID span_c = 1"
    by (simp add: span_a_def span_b_def span_c_def NewSpan_def)
  have en: "enabled ?t" and tr: "transport ?t = Some accepting"
    and ne: "spans (buffer ?t) \<noteq> []"
    by (simp_all add: tracer0_def NewTracerTransport_def)
  have ord: "range_order [2, 1] (traceBuffer (spans (buffer ?t)))"
    using ids by (auto simp add: range_order_def dom_traceBuffer)
  have dbg: "\<not> DebugLoggingEnabled ?t"
    by (simp add: tracer0_def NewTracerTransport_def)
  have "snd (snd (FlushTraces [2, 1] ?t)) = [SendTracesCall [[span_b], [span_a, span_c]]]"
    using FlushTraces_groups_by_trace [OF en tr ne ord] ids dbg
    by (simp add: FlushTraces_sends [OF en tr ne])
  moreover have "fst (FlushTraces [2, 1] ?t) = None"
    using FlushTraces_groups_by_trace [OF en tr ne ord] by (simp add: accepting_def)
  moreover have "fst (snd (FlushTraces [2, 1] ?t)) = tracer0"
    by (simp add: FlushTraces_tracer tracer0_def NewTracerTransport_def newSpansBuffer_def)
  ultimately show ?thesis using ids by (simp add: prod_eq_iff)
qed

subsection \<open>flushServices\<close>

lemma tracer1_fields:
  "enabled tracer1" "servicesModified tracer1" "transport tracer1 = Some accepting"
  "services tracer1 = [''web'' \<mapsto> web_service]" "spans (buffer tracer1) = []"
  "\<not> DebugLoggingEnabled tracer1"
  by (simp_all add: tracer1_def appendService_def tracer0_def NewTracerTransport_def
        web_service_def Let_def newSpansBuffer_def)

text \<open>
  Claim C4. \<open>flushServices\<close> returns the nil error, makes no call and leaves the
  tracer as it was whenever the tracer is disabled or the modified flag is false.
  Otherwise it makes one call, \<open>SendServices\<close> with the whole current mapping, on
  the transport of the tracer, and returns that call's error; the modified flag is
  cleared exactly when the call returns no error, and when it returns an error the
  tracer, its flag and its mapping included, is left as it was. The mapping is never
  changed. (With a nil transport that one call is the nil dereference of claim C9: it
  does not succeed, and the flag and the mapping stay.)
\<close>

theorem flushServices_sends_when_modified:
  "(\<not> enabled t \<or> \<not> servicesModified t \<longrightarrow> flushServices t = (Inr None, t, []))
   \<and> (enabled t \<and> servicesModified t \<and> transport t = Some tr \<longrightarrow>
        snd (snd (flushServices t)) = [SendServicesCall (services t)]
        \<and> fst (flushServices t) = Inr (SendServices tr (services t))
        \<and> (servicesModified (fst (snd (flushServices t))) = False
             \<longleftrightarrow> SendServices tr (services t) = None)
        \<and> (SendServices tr (services t) = None \<longrightarrow>
             fst (snd (flushServices t)) = t\<lparr>servicesModified := False\<rparr>)
        \<and> (SendServices tr (services t) \<noteq> None \<longrightarrow> fst (snd (flushServices t)) = t)
        \<and> services (fst (snd (flushServices t))) = services t)
   \<and> (enabled t \<and> servicesModified t \<and> transport t = None \<longrightarrow>
        flushServices t = (Inl nil_pointer_dereference, t, []))"
  by (auto simp add: flushServices_def split: option.splits)

theorem flushServices_sends_when_modified_witness:
  "flushServices (SetEnabled tracer1 False) = (Inr None, SetEnabled tracer1 False, [])
   \<and> flushServices tracer1 =
       (Inr None, tracer1\<lparr>servicesModified := False\<rparr>, [SendServicesCall [''web'' \<mapsto> web_service]])
   \<and> flushServices (tracer1\<lparr>transport := Some refusing\<rparr>) =
       (Inr (Some ''agent down''), tracer1\<lparr>transport := Some refusing\<rparr>,
        [SendServicesCall [''web'' \<mapsto> web_service]])
   \<and> flushServices (tracer1\<lparr>transport := None\<rparr>) =
       (Inl nil_pointer_dereference, tracer1\<lparr>transport := None\<rparr>, [])"
  using flushServices_sends_when_modified [of "SetEnabled tracer1 False" accepting]
        flushServices_sends_when_modified [of tracer1 accepting]
        flushServices_sends_when_modified [of "tracer1\<lparr>transport := Some refusing\<rparr>" refusing]
        flushServices_sends_when_modified [of "tracer1\<lparr>transport := None\<rparr>" accepting]
  by (simp add: tracer1_fields SetEnabled_def prod_eq_iff accepting_def refusing_def)

text \<open>
  Claim C9. \<open>flushServices\<close> returns its trivial success (nil error, no call, tracer
  unchanged) exactly when the tracer is disabled or the modified flag is false: the
  absence of the transport is not among its guards. For a tracer that is enabled, has
  the modified flag set and has a nil transport it calls \<open>SendServices\<close> on the nil
  interface value and panics. \<open>FlushTraces\<close> on a tracer with a nil transport returns
  the nil error and makes no call.
\<close>

theorem flushServices_does_not_check_transport:
  "(flushServices t = (Inr None, t, []) \<longleftrightarrow> \<not> enabled t \<or> \<not> servicesModified t)
   \<and> (enabled t \<and> servicesModified t \<and> transport t = None \<longrightarrow>
        flushServices t = (Inl nil_pointer_dereference, t, []))
   \<and> (transport t = None \<longrightarrow>
        fst (FlushTraces ks t) = None
        \<and> filter is_transport_call (snd (snd (FlushTraces ks t))) = [])"
proof -
  have "transport t = None \<Longrightarrow>
          fst (FlushTraces ks t) = None
          \<and> filter is_transport_call (snd (snd (FlushTraces ks t))) = []"
    by (simp add: FlushTraces_nothing_to_do filter_transport_dbg del: filter.simps)
  moreover have "flushServices t = (Inr None, t, []) \<longleftrightarrow> \<not> enabled t \<or> \<not> servicesModified t"
    by (auto simp add: flushServices_def split: option.splits)
  moreover have "enabled t \<and> servicesModified t \<and> transport t = None \<longrightarrow>
        flushServices t = (Inl nil_pointer_dereference, t, [])"
    by (simp add: flushServices_def)
  ultimately show ?thesis by blast
qed

theorem flushServices_does_not_check_transport_witness:
  "flushServices (tracer1\<lparr>transport := None\<rparr>) =
     (Inl nil_pointer_dereference, tracer1\<lparr>transport := None\<rparr>, [])
   \<and> fst (FlushTraces [1] (tracer1\<lparr>transport := None, buffer := \<lparr>spans = [span_a], maxSize = 1000\<rparr>\<rparr>)) = None
   \<and> filter is_transport_call
       (snd (snd (FlushTraces [1] (tracer1\<lparr>transport := None, buffer := \<lparr>spans = [span_a], maxSize = 1000\<rparr>\<rparr>)))) = []"
  using flushServices_does_not_check_transport [of "tracer1\<lparr>transport := None\<rparr>" "[1]"]
        flushServices_does_not_check_transport
          [of "tracer1\<lparr>transport := None, buffer := \<lparr>spans = [span_a], maxSize = 1000\<rparr>\<rparr>" "[1]"]
  by (simp add: tracer1_fields)

subsection \<open>The service registry\<close>



















subsection \<open>flush\<close>













subsection \<open>The worker\<close>





















end
